theory Spec2Isabelle
  imports Main "HOL-Library.Word"
begin

unbundle bit_operations_syntax

section \<open>Machine integers and bytes\<close>

text \<open>
  The library is C. An \<^verbatim>\<open>int\<close> is a 32-bit two's complement value and a
  \<^verbatim>\<open>size_t\<close> a 64-bit unsigned one (the LP64 data model); values of both
  types are carried as HOL integers and \<open>c_int\<close>, \<open>c_size_t\<close> are the conversions
  into the two types. C's \<^verbatim>\<open>/\<close> and \<^verbatim>\<open>%\<close> on \<^verbatim>\<open>int\<close> truncate
  towards zero.
\<close>

type_synonym byte = "8 word"

definition c_int :: "int \<Rightarrow> int" where
  "c_int x = (x + 2 ^ 31) mod 2 ^ 32 - 2 ^ 31"

definition c_size_t :: "int \<Rightarrow> int" where
  "c_size_t x = x mod 2 ^ 64"

definition c_div :: "int \<Rightarrow> int \<Rightarrow> int" where
  "c_div a b = sgn a * sgn b * (\<bar>a\<bar> div \<bar>b\<bar>)"

definition c_mod :: "int \<Rightarrow> int \<Rightarrow> int" where
  "c_mod a b = a - b * c_div a b"

section \<open>Compile-time parameters and the disk layout\<close>

text \<open>
  \<^verbatim>\<open>LibDisk.h\<close> and \<^verbatim>\<open>LibFS.h\<close> are not part of the source tree, so the
  parameters they define are taken as a parameter \<open>c\<close> of the model. The sector size
  is the exception: \<^verbatim>\<open>LibFS.c\<close> writes the literal 512 wherever it allocates or
  walks a sector buffer, so \<open>SECTOR_SIZE\<close> is 512.
\<close>

record config =
  TOTAL_SECTORS :: int
  MAX_FILES :: int
  MAX_SECTORS_PER_FILE :: int

definition SECTOR_SIZE :: int where
  "SECTOR_SIZE = 512"

definition MAX_PATH :: int where
  "MAX_PATH = 256"

definition MAX_NAME :: int where
  "MAX_NAME = 16"

definition MAX_OPEN_FILES :: int where
  "MAX_OPEN_FILES = 256"

definition SUPERBLOCK_START_SECTOR :: int where
  "SUPERBLOCK_START_SECTOR = 0"

definition INODE_BITMAP_START_SECTOR :: int where
  "INODE_BITMAP_START_SECTOR = 1"

definition INODE_BITMAP_SIZE :: "config \<Rightarrow> int" where
  "INODE_BITMAP_SIZE c = (MAX_FILES c + 7) div 8"

definition INODE_BITMAP_SECTORS :: "config \<Rightarrow> int" where
  "INODE_BITMAP_SECTORS c = (INODE_BITMAP_SIZE c + SECTOR_SIZE - 1) div SECTOR_SIZE"

definition SECTOR_BITMAP_START_SECTOR :: "config \<Rightarrow> int" where
  "SECTOR_BITMAP_START_SECTOR c = INODE_BITMAP_START_SECTOR + INODE_BITMAP_SECTORS c"

definition SECTOR_BITMAP_SIZE :: "config \<Rightarrow> int" where
  "SECTOR_BITMAP_SIZE c = (TOTAL_SECTORS c + 7) div 8"

definition SECTOR_BITMAP_SECTORS :: "config \<Rightarrow> int" where
  "SECTOR_BITMAP_SECTORS c = (SECTOR_BITMAP_SIZE c + SECTOR_SIZE - 1) div SECTOR_SIZE"

definition INODE_TABLE_START_SECTOR :: "config \<Rightarrow> int" where
  "INODE_TABLE_START_SECTOR c = SECTOR_BITMAP_START_SECTOR c + SECTOR_BITMAP_SECTORS c"

text \<open>
  \<^verbatim>\<open>sizeof(inode_t)\<close>: the two \<^verbatim>\<open>int\<close> fields \<open>size\<close> and \<open>type\<close>, then
  \<open>MAX_SECTORS_PER_FILE\<close> sector indices, four bytes each.
  \<^verbatim>\<open>sizeof(dirent_t)\<close>: \<open>MAX_NAME\<close> bytes of name, then the \<^verbatim>\<open>int\<close> inode.
\<close>

definition sizeof_inode :: "config \<Rightarrow> int" where
  "sizeof_inode c = 4 + 4 + 4 * MAX_SECTORS_PER_FILE c"

definition INODES_PER_SECTOR :: "config \<Rightarrow> int" where
  "INODES_PER_SECTOR c = SECTOR_SIZE div sizeof_inode c"

definition INODE_TABLE_SECTORS :: "config \<Rightarrow> int" where
  "INODE_TABLE_SECTORS c = (MAX_FILES c + INODES_PER_SECTOR c - 1) div INODES_PER_SECTOR c"

definition DATABLOCK_START_SECTOR :: "config \<Rightarrow> int" where
  "DATABLOCK_START_SECTOR c = INODE_TABLE_START_SECTOR c + INODE_TABLE_SECTORS c"

definition sizeof_dirent :: int where
  "sizeof_dirent = MAX_NAME + 4"

definition DIRENTS_PER_SECTOR :: int where
  "DIRENTS_PER_SECTOR = SECTOR_SIZE div sizeof_dirent"

text \<open>
  The parameter values a build can have: the macros above divide by
  \<open>INODES_PER_SECTOR\<close>, so an inode has to fit into a sector, and the image has
  to be larger than the superblock, the bitmaps and the inode table.
\<close>

definition valid_config :: "config \<Rightarrow> bool" where
  "valid_config c \<longleftrightarrow>
     1 \<le> MAX_SECTORS_PER_FILE c \<and> MAX_SECTORS_PER_FILE c \<le> 126 \<and>
     1 \<le> MAX_FILES c \<and> 0 < TOTAL_SECTORS c \<and>
     DATABLOCK_START_SECTOR c < TOTAL_SECTORS c"

section \<open>The block device\<close>

text \<open>
  A sector buffer is indexed by its byte offset; the offsets \<open>0 .. 511\<close> are its
  content. The disk is indexed by the sector number.
\<close>

type_synonym sector = "int \<Rightarrow> byte"
type_synonym disk = "int \<Rightarrow> sector"

text \<open>
  Modelled from the spec: \<^verbatim>\<open>Disk_Read\<close> and \<^verbatim>\<open>Disk_Write\<close> of the absent
  block device layer \<^verbatim>\<open>LibDisk\<close>. By the block device contract they transfer
  exactly \<open>SECTOR_SIZE\<close> bytes and return 0 on success, a negative value on failure;
  the failure is \<open>None\<close> here, and a sector number outside the image fails.
\<close>

definition Disk_Read :: "config \<Rightarrow> disk \<Rightarrow> int \<Rightarrow> sector option" where
  "Disk_Read c d i = (if 0 \<le> i \<and> i < TOTAL_SECTORS c then Some (d i) else None)"

definition Disk_Write :: "config \<Rightarrow> disk \<Rightarrow> int \<Rightarrow> sector \<Rightarrow> disk option" where
  "Disk_Write c d i buf =
     (if 0 \<le> i \<and> i < TOTAL_SECTORS c
      then Some (d(i := (\<lambda>k. if 0 \<le> k \<and> k < SECTOR_SIZE then buf k else 0)))
      else None)"

text \<open>\<^verbatim>\<open>calloc(512, sizeof(char))\<close> and \<^verbatim>\<open>memset(buf, v, n)\<close> on a sector buffer.\<close>

definition zero_sector :: sector where
  "zero_sector = (\<lambda>k. 0)"

definition memset_sector :: "sector \<Rightarrow> byte \<Rightarrow> int \<Rightarrow> sector" where
  "memset_sector buf v n = (\<lambda>k. if 0 \<le> k \<and> k < n then v else buf k)"

section \<open>Bitmaps\<close>

text \<open>
  The \<^verbatim>\<open>for\<close> loop of \<open>bitmap_init\<close> over \<open>beginBit\<close>: while \<open>mod\<close> is
  positive it assigns \<^verbatim>\<open>1 << (7-beginBit)\<close> to byte \<open>temp\<close>.
\<close>

function bitmap_init_bits :: "sector \<Rightarrow> int \<Rightarrow> int \<Rightarrow> int \<Rightarrow> sector" where
  "bitmap_init_bits bitmap temp md beginBit =
     (if beginBit < 8
      then (if md > 0
            then bitmap_init_bits (bitmap(temp := push_bit (nat (7 - beginBit)) 1))
                   temp (md - 1) (beginBit + 1)
            else bitmap_init_bits bitmap temp md (beginBit + 1))
      else bitmap)"
  by pat_completeness auto
termination
  by (relation "measure (\<lambda>(bitmap, temp, md, beginBit). nat (8 - beginBit))") auto

declare bitmap_init_bits.simps [simp del]

text \<open>
  The loop of \<open>bitmap_init\<close> over the sectors. The result of \<^verbatim>\<open>Disk_Write\<close>
  is not looked at: a failed write leaves the disk as it was.
\<close>

function bitmap_init_sectors :: "config \<Rightarrow> disk \<Rightarrow> int \<Rightarrow> int \<Rightarrow> int \<Rightarrow> int \<Rightarrow> disk" where
  "bitmap_init_sectors c d start num nbits beginSector =
     (if beginSector < num
      then (let (bitmap, nbits') =
                  (if nbits > 512 * 8
                   then (memset_sector zero_sector 255 512, nbits - 512)
                   else if nbits < 512 * 8 \<and> nbits > 0
                   then (bitmap_init_bits (memset_sector zero_sector 255 (c_div nbits 8))
                           (c_div nbits 8) (c_mod nbits 8) 0, 0)
                   else (zero_sector, nbits));
                d' = (case Disk_Write c d (start + beginSector) bitmap of
                        Some d' \<Rightarrow> d' | None \<Rightarrow> d)
            in bitmap_init_sectors c d' start num nbits' (beginSector + 1))
      else d)"
  by pat_completeness auto
termination
  by (relation "measure (\<lambda>(c, d, start, num, nbits, beginSector). nat (num - beginSector))") auto

declare bitmap_init_sectors.simps [simp del]

definition bitmap_init :: "config \<Rightarrow> disk \<Rightarrow> int \<Rightarrow> int \<Rightarrow> int \<Rightarrow> disk" where
  "bitmap_init c d start num nbits = bitmap_init_sectors c d start num nbits 0"

text \<open>
  The test \<^verbatim>\<open>(bitmap[beginByte] & (1 << (7-beginBit))) == 0\<close> of
  \<open>bitmap_first_unused\<close>: bit \<open>beginBit\<close> of a byte, most significant bit first,
  is clear.
\<close>

definition bit_is_clear :: "byte \<Rightarrow> int \<Rightarrow> bool" where
  "bit_is_clear b beginBit \<longleftrightarrow> b AND push_bit (nat (7 - beginBit)) 1 = 0"

text \<open>
  What a call does when it does not return to its caller with a value: an array is
  indexed outside its bounds, an \<^verbatim>\<open>assert\<close> aborts the process, the pointer
  \<^verbatim>\<open>(inode_t*)-1\<close> is dereferenced, an object is used through a pointer after its
  storage has been given to other calls, control reaches the end of a non-void function
  whose value the caller uses, or a loop has no way left to end.
\<close>

datatype fault =
  Out_Of_Bounds | Assertion_Failed | Invalid_Pointer | Dangling_Pointer | Missing_Return
  | Never_Returns

text \<open>
  \<open>bitmap_first_unused\<close>, innermost loop: the eight bits of byte \<open>beginByte\<close>.
  \<open>Inl\<close> is the \<^verbatim>\<open>return position\<close> with the updated sector buffer, \<open>Inr\<close> is
  the loop running to its end with the new \<open>position\<close> and \<open>nbits\<close>.
\<close>

function first_unused_bit ::
  "sector \<Rightarrow> int \<Rightarrow> int \<Rightarrow> int \<Rightarrow> int \<Rightarrow> (int \<times> sector) + (int \<times> int)" where
  "first_unused_bit bitmap beginByte position nbits beginBit =
     (if beginBit < 8
      then (if bit_is_clear (bitmap beginByte) beginBit
            then Inl (position,
                   bitmap(beginByte := bitmap beginByte OR push_bit (nat (7 - beginBit)) 1))
            else first_unused_bit bitmap beginByte (position + 1) (nbits - 1) (beginBit + 1))
      else Inr (position, nbits))"
  by pat_completeness auto
termination
  by (relation "measure (\<lambda>(bitmap, beginByte, position, nbits, beginBit). nat (8 - beginBit))") auto

declare first_unused_bit.simps [simp del]

text \<open>The loop over the 512 bytes of one bitmap sector.\<close>

function first_unused_byte ::
  "sector \<Rightarrow> int \<Rightarrow> int \<Rightarrow> int \<Rightarrow> (int \<times> sector) + (int \<times> int)" where
  "first_unused_byte bitmap position nbits beginByte =
     (if beginByte < 512
      then (if sint (bitmap beginByte) = - 1
            then first_unused_byte bitmap (position + 8) (nbits - 8) (beginByte + 1)
            else (case first_unused_bit bitmap beginByte position nbits 0 of
                    Inl found \<Rightarrow> Inl found
                  | Inr (position', nbits') \<Rightarrow>
                      first_unused_byte bitmap position' nbits' (beginByte + 1)))
      else Inr (position, nbits))"
  by pat_completeness auto
termination
  by (relation "measure (\<lambda>(bitmap, position, nbits, beginByte). nat (512 - beginByte))") auto

declare first_unused_byte.simps [simp del]

lemma first_unused_bit_nbits:
  "first_unused_bit bitmap beginByte position nbits beginBit = Inr (position', nbits') \<Longrightarrow>
   beginBit \<le> 8 \<Longrightarrow> nbits' = nbits - (8 - beginBit)"
proof (induction bitmap beginByte position nbits beginBit rule: first_unused_bit.induct)
  case (1 bitmap beginByte position nbits beginBit)
  show ?case
  proof (cases "beginBit < 8")
    case True
    with "1.prems" have clear: "\<not> bit_is_clear (bitmap beginByte) beginBit"
      by (auto simp: first_unused_bit.simps [of bitmap beginByte position nbits beginBit])
    with True "1.prems" have
      "first_unused_bit bitmap beginByte (position + 1) (nbits - 1) (beginBit + 1)
         = Inr (position', nbits')"
      by (simp add: first_unused_bit.simps [of bitmap beginByte position nbits beginBit])
    with "1.IH" [OF True clear] True have "nbits' = nbits - 1 - (8 - (beginBit + 1))"
      by simp
    then show ?thesis by simp
  next
    case False
    with "1.prems" show ?thesis
      by (simp add: first_unused_bit.simps [of bitmap beginByte position nbits beginBit])
  qed
qed

lemma first_unused_byte_nbits:
  "first_unused_byte bitmap position nbits beginByte = Inr (position', nbits') \<Longrightarrow>
   beginByte \<le> 512 \<Longrightarrow> nbits' = nbits - 8 * (512 - beginByte)"
proof (induction bitmap position nbits beginByte rule: first_unused_byte.induct)
  case (1 bitmap position nbits beginByte)
  show ?case
  proof (cases "beginByte < 512")
    case True
    show ?thesis
    proof (cases "sint (bitmap beginByte) = - 1")
      case full: True
      with True "1.prems" have
        "first_unused_byte bitmap (position + 8) (nbits - 8) (beginByte + 1)
           = Inr (position', nbits')"
        by (simp add: first_unused_byte.simps [of bitmap position nbits beginByte])
      with "1.IH"(1) [OF True full] True show ?thesis by simp
    next
      case notfull: False
      with True "1.prems" obtain p n where
        bits: "first_unused_bit bitmap beginByte position nbits 0 = Inr (p, n)" and
        rest: "first_unused_byte bitmap p n (beginByte + 1) = Inr (position', nbits')"
        by (auto simp: first_unused_byte.simps [of bitmap position nbits beginByte]
                 split: sum.splits)
      from first_unused_bit_nbits [OF bits] have "n = nbits - 8" by simp
      moreover from "1.IH"(2) [OF True notfull bits refl rest] True
      have "nbits' = n - 8 * (512 - (beginByte + 1))" by simp
      ultimately show ?thesis by simp
    qed
  next
    case False
    with "1.prems" show ?thesis
      by (simp add: first_unused_byte.simps [of bitmap position nbits beginByte])
  qed
qed

text \<open>
  The \<^verbatim>\<open>while(nbits > 0)\<close> loop of \<open>bitmap_first_unused\<close>. A sector that
  cannot be read is skipped without touching \<open>nbits\<close>; once the sector number has
  passed the end of the disk every further read fails as well and the loop cannot
  end, which is the outcome \<open>Never_Returns\<close>. The result of the
  \<^verbatim>\<open>Disk_Write\<close> is not looked at.
\<close>

function first_unused_sector ::
  "config \<Rightarrow> disk \<Rightarrow> int \<Rightarrow> int \<Rightarrow> int \<Rightarrow> int \<Rightarrow> fault + (int \<times> disk)" where
  "first_unused_sector c d start nbits beginSector position =
     (if nbits > 0
      then (case Disk_Read c d (start + beginSector) of
              Some bitmap \<Rightarrow>
                (case first_unused_byte bitmap position nbits 0 of
                   Inl (found, bitmap') \<Rightarrow>
                     Inr (found, case Disk_Write c d (start + beginSector) bitmap' of
                                   Some d' \<Rightarrow> d' | None \<Rightarrow> d)
                 | Inr (position', nbits') \<Rightarrow>
                     first_unused_sector c d start nbits' (beginSector + 1) position')
            | None \<Rightarrow>
                (if TOTAL_SECTORS c \<le> start + beginSector then Inl Never_Returns
                 else first_unused_sector c d start nbits (beginSector + 1) position))
      else Inr (- 1, d))"
  by pat_completeness auto
termination
  apply (relation "measures [\<lambda>(c, d, start, nbits, beginSector, position). nat nbits,
                           \<lambda>(c, d, start, nbits, beginSector, position). nat (- (start + beginSector))]")
    apply simp
   apply (auto simp: Disk_Read_def split: if_splits dest: first_unused_byte_nbits)
  done

declare first_unused_sector.simps [simp del]

definition bitmap_first_unused :: "config \<Rightarrow> disk \<Rightarrow> int \<Rightarrow> int \<Rightarrow> int \<Rightarrow> fault + (int \<times> disk)" where
  "bitmap_first_unused c d start num nbits = first_unused_sector c d start nbits 0 0"

text \<open>
  \<open>bitmap_reset\<close>: the loop counts \<open>bit\<close> down while \<open>beginBit\<close> counts up. The
  byte it changes is byte \<^verbatim>\<open>ibit / 512\<close> of the buffer of 512 bytes. The results of
  \<^verbatim>\<open>Disk_Read\<close> and \<^verbatim>\<open>Disk_Write\<close> are not looked at: after a failed read the
  buffer is as \<^verbatim>\<open>calloc\<close> left it.
\<close>

function bitmap_reset_bits ::
  "config \<Rightarrow> disk \<Rightarrow> int \<Rightarrow> sector \<Rightarrow> int \<Rightarrow> int \<Rightarrow> int \<Rightarrow> fault + (int \<times> disk)" where
  "bitmap_reset_bits c d sector_no bitmap beginByte bit_no beginBit =
     (if beginBit < 8
      then (if bit_no = 0
            then (if beginByte < 0 \<or> 512 \<le> beginByte then Inl Out_Of_Bounds
                  else Inr (0,
                    case Disk_Write c d sector_no
                           (bitmap(beginByte :=
                              bitmap beginByte AND NOT (push_bit (nat (7 - beginBit)) 1))) of
                      Some d' \<Rightarrow> d' | None \<Rightarrow> d))
            else bitmap_reset_bits c d sector_no bitmap beginByte (bit_no - 1) (beginBit + 1))
      else Inr (- 1, d))"
  by pat_completeness auto
termination
  by (relation "measure (\<lambda>(c, d, sector_no, bitmap, beginByte, bit_no, beginBit). nat (8 - beginBit))")
     auto

declare bitmap_reset_bits.simps [simp del]

definition bitmap_reset :: "config \<Rightarrow> disk \<Rightarrow> int \<Rightarrow> int \<Rightarrow> int \<Rightarrow> fault + (int \<times> disk)" where
  "bitmap_reset c d start num ibit =
     (let Sector = c_div ibit (512 * 8);
          bit_no = c_mod ibit 8;
          beginByte = c_div ibit 512;
          bitmap = (case Disk_Read c d (start + Sector) of
                      Some b \<Rightarrow> b | None \<Rightarrow> zero_sector)
      in bitmap_reset_bits c d (start + Sector) bitmap beginByte bit_no 0)"

section \<open>Inodes and directory entries in a sector buffer\<close>

text \<open>
  The code reads an \<^verbatim>\<open>inode_t\<close> or a \<^verbatim>\<open>dirent_t\<close> through a pointer into
  a sector buffer. Here the pointer is the byte offset of the record in the buffer,
  and an \<^verbatim>\<open>int\<close> field is its four bytes, least significant first (the byte order
  of the hosts the library is built for).
\<close>

definition le_int32 :: "sector \<Rightarrow> int \<Rightarrow> int" where
  "le_int32 buf off =
     c_int (uint (buf off) + 256 * uint (buf (off + 1)) + 65536 * uint (buf (off + 2))
            + 16777216 * uint (buf (off + 3)))"

definition store_int32 :: "sector \<Rightarrow> int \<Rightarrow> int \<Rightarrow> sector" where
  "store_int32 buf off v =
     buf(off := word_of_int v, off + 1 := word_of_int (v div 256),
         off + 2 := word_of_int (v div 65536), off + 3 := word_of_int (v div 16777216))"

definition inode_size :: "sector \<Rightarrow> int \<Rightarrow> int" where
  "inode_size buf node = le_int32 buf node"

definition inode_type :: "sector \<Rightarrow> int \<Rightarrow> int" where
  "inode_type buf node = le_int32 buf (node + 4)"

definition inode_data :: "sector \<Rightarrow> int \<Rightarrow> int \<Rightarrow> int" where
  "inode_data buf node k = le_int32 buf (node + 8 + 4 * k)"

definition dirent_inode :: "sector \<Rightarrow> int \<Rightarrow> int" where
  "dirent_inode buf dirent = le_int32 buf (dirent + MAX_NAME)"

text \<open>
  The sector of the inode table that holds inode \<open>n\<close>,
  \<^verbatim>\<open>INODE_TABLE_START_SECTOR+n/INODES_PER_SECTOR\<close>. \<open>INODES_PER_SECTOR\<close> is a
  \<^verbatim>\<open>size_t\<close> (it divides by a \<^verbatim>\<open>sizeof\<close>), so \<open>n\<close> is converted to
  \<^verbatim>\<open>size_t\<close> before the division and the sum is converted back to \<^verbatim>\<open>int\<close>.
\<close>

definition inode_sector :: "config \<Rightarrow> int \<Rightarrow> int" where
  "inode_sector c n =
     c_int (c_size_t (c_size_t (INODE_TABLE_START_SECTOR c)
                      + c_size_t n div INODES_PER_SECTOR c))"

text \<open>
  The three lines that follow every load of an inode sector:
  \<^verbatim>\<open>inode_start_entry = (sector-INODE_TABLE_START_SECTOR)*INODES_PER_SECTOR\<close>,
  \<^verbatim>\<open>offset = n-inode_start_entry\<close> and
  \<^verbatim>\<open>assert(0 <= offset && offset < INODES_PER_SECTOR)\<close>. The result is the index of
  the inode in its sector.
\<close>

definition inode_offset :: "config \<Rightarrow> int \<Rightarrow> int \<Rightarrow> fault + int" where
  "inode_offset c sector_no n =
     (let inode_start_entry =
            c_int (c_size_t (c_size_t (sector_no - INODE_TABLE_START_SECTOR c)
                             * INODES_PER_SECTOR c));
          offset = c_int (n - inode_start_entry)
      in if 0 \<le> offset \<and> c_size_t offset < INODES_PER_SECTOR c then Inr offset
         else Inl Assertion_Failed)"

section \<open>File names and paths\<close>

text \<open>
  A C string is the list of its characters before the terminating NUL.
  \<^verbatim>\<open>isdigit\<close> and \<^verbatim>\<open>isalpha\<close> are those of the C locale.
\<close>

definition isdigit :: "char \<Rightarrow> bool" where
  "isdigit ch \<longleftrightarrow> (48::nat) \<le> of_char ch \<and> of_char ch \<le> (57::nat)"

definition isalpha :: "char \<Rightarrow> bool" where
  "isalpha ch \<longleftrightarrow> (65::nat) \<le> of_char ch \<and> of_char ch \<le> (90::nat)
                  \<or> (97::nat) \<le> of_char ch \<and> of_char ch \<le> (122::nat)"

fun illegal_chars :: "string \<Rightarrow> int" where
  "illegal_chars [] = 0"
| "illegal_chars (ch # name) =
     (if \<not> (isdigit ch \<or> isalpha ch \<or> ch = CHR ''.'' \<or> ch = CHR ''-'' \<or> ch = CHR ''_'')
      then 1 else illegal_chars name)"

definition illegal_filename :: "string \<Rightarrow> int" where
  "illegal_filename name =
     (if int (length name) > MAX_NAME - 1 then 1 else illegal_chars name)"

text \<open>
  \<^verbatim>\<open>!strcmp(dirent.fname, fname)\<close> for the name stored at offset \<open>off\<close> of a sector
  buffer: the bytes agree up to and including the NUL that ends \<open>fname\<close>.
\<close>

fun strcmp_eq :: "sector \<Rightarrow> int \<Rightarrow> string \<Rightarrow> bool" where
  "strcmp_eq buf off [] \<longleftrightarrow> buf off = 0"
| "strcmp_eq buf off (ch # fname) \<longleftrightarrow> buf off = of_char ch \<and> strcmp_eq buf (off + 1) fname"

text \<open>
  The tokens that the repeated \<^verbatim>\<open>strsep(&lpath, "/")\<close> of \<open>follow_path\<close> returns
  before it returns \<^verbatim>\<open>NULL\<close>: the pieces between the slashes, empty ones included.
\<close>

fun strsep_all :: "string \<Rightarrow> string list" where
  "strsep_all [] = [[]]"
| "strsep_all (ch # lpath) =
     (if ch = CHR ''/'' then [] # strsep_all lpath
      else (case strsep_all lpath of
              token # tokens \<Rightarrow> (ch # token) # tokens
            | [] \<Rightarrow> [[ch]]))"

section \<open>Path resolution\<close>

text \<open>
  \<open>find_child_inode\<close>, the \<^verbatim>\<open>for\<close> loop over the entries of one directory
  sector; \<open>Some\<close> is the inode number of the entry whose name matched. The loop
  leaves with \<^verbatim>\<open>if(i>nentries) break;\<close>.
\<close>

function find_in_sector :: "sector \<Rightarrow> string \<Rightarrow> int \<Rightarrow> int \<Rightarrow> int option" where
  "find_in_sector buf fname nentries i =
     (if i < DIRENTS_PER_SECTOR
      then (if i > nentries then None
            else if strcmp_eq buf (i * sizeof_dirent) fname
            then Some (dirent_inode buf (i * sizeof_dirent))
            else find_in_sector buf fname nentries (i + 1))
      else None)"
  by pat_completeness auto
termination
  by (relation "measure (\<lambda>(buf, fname, nentries, i). nat (DIRENTS_PER_SECTOR - i))") auto

declare find_in_sector.simps [simp del]

text \<open>
  The \<^verbatim>\<open>while(nentries > 0)\<close> loop of \<open>find_child_inode\<close>. The result is the
  returned value together with the cached sector number and the cached buffer, which
  the function updates through its pointer arguments. \<open>parent\<close> is the offset of the
  parent inode in the cached buffer \<open>cb\<close>.
\<close>

function find_child_loop ::
  "config \<Rightarrow> disk \<Rightarrow> sector \<Rightarrow> int \<Rightarrow> string \<Rightarrow> int \<Rightarrow> int \<Rightarrow> int
     \<Rightarrow> fault + (int \<times> int \<times> sector)" where
  "find_child_loop c d cb parent fname cached_sector nentries idx =
     (if nentries > 0
      then (if idx < 0 \<or> MAX_SECTORS_PER_FILE c \<le> idx then Inl Out_Of_Bounds
            else (case Disk_Read c d (inode_data cb parent idx) of
                    None \<Rightarrow> Inr (- 2, cached_sector, cb)
                  | Some buf \<Rightarrow>
                      (case find_in_sector buf fname nentries 0 of
                         Some child_inode \<Rightarrow>
                           (let sector_no = inode_sector c child_inode
                            in if sector_no \<noteq> cached_sector
                               then (case Disk_Read c d sector_no of
                                       None \<Rightarrow> Inr (- 2, sector_no, cb)
                                     | Some cb' \<Rightarrow> Inr (child_inode, sector_no, cb'))
                               else Inr (child_inode, cached_sector, cb))
                       | None \<Rightarrow>
                           find_child_loop c d cb parent fname cached_sector
                             (nentries - DIRENTS_PER_SECTOR) (idx + 1))))
      else Inr (- 1, cached_sector, cb))"
  by pat_completeness auto
termination
  by (relation "measure (\<lambda>(c, d, cb, parent, fname, cached_sector, nentries, idx). nat nentries)")
     (auto simp: DIRENTS_PER_SECTOR_def SECTOR_SIZE_def sizeof_dirent_def MAX_NAME_def)

declare find_child_loop.simps [simp del]

definition find_child_inode ::
  "config \<Rightarrow> disk \<Rightarrow> int \<Rightarrow> string \<Rightarrow> int \<Rightarrow> sector \<Rightarrow> fault + (int \<times> int \<times> sector)" where
  "find_child_inode c d parent_inode fname cached_inode_sector cached_inode_buffer =
     (case inode_offset c cached_inode_sector parent_inode of
        Inl f \<Rightarrow> Inl f
      | Inr offset \<Rightarrow>
          (let parent = offset * sizeof_inode c
           in if inode_type cached_inode_buffer parent \<noteq> 1
              then Inr (- 2, cached_inode_sector, cached_inode_buffer)
              else find_child_loop c d cached_inode_buffer parent fname cached_inode_sector
                     (inode_size cached_inode_buffer parent) 0))"

text \<open>
  A \<^verbatim>\<open>char*\<close> argument: the null pointer, or the address of a string together
  with the string found there.
\<close>

datatype char_ptr = Null | Ptr nat string

text \<open>
  The \<^verbatim>\<open>while\<close> loop of \<open>follow_path\<close> over the tokens. The result is: whether
  the loop left with \<^verbatim>\<open>return -1\<close>, then \<open>parent_inode\<close>, \<open>child_inode\<close> and the
  name last copied to \<open>last_fname\<close>.
\<close>

fun follow_tokens ::
  "config \<Rightarrow> disk \<Rightarrow> string list \<Rightarrow> int \<Rightarrow> int \<Rightarrow> int \<Rightarrow> sector \<Rightarrow> string option
     \<Rightarrow> fault + (bool \<times> int \<times> int \<times> string option)" where
  "follow_tokens c d [] parent_inode child_inode cached_sector cached_buffer last_fname =
     Inr (False, parent_inode, child_inode, last_fname)"
| "follow_tokens c d (token # tokens) parent_inode child_inode cached_sector cached_buffer
     last_fname =
     (if token = [] then
        follow_tokens c d tokens parent_inode child_inode cached_sector cached_buffer last_fname
      else if illegal_filename token \<noteq> 0 then
        Inr (True, parent_inode, child_inode, last_fname)
      else if child_inode < 0 then
        Inr (True, parent_inode, child_inode, last_fname)
      else (case find_child_inode c d child_inode token cached_sector cached_buffer of
              Inl f \<Rightarrow> Inl f
            | Inr (child_inode', cached_sector', cached_buffer') \<Rightarrow>
                follow_tokens c d tokens child_inode child_inode' cached_sector' cached_buffer'
                  (Some token)))"

text \<open>
  \<open>follow_path\<close> returns the parent inode, or \<open>- 1\<close>. The second component is the
  value it stores through \<open>last_inode\<close>, \<open>None\<close> when it returns without storing
  one; the third is the name it copies to \<open>last_fname\<close> (a caller that passes
  \<^verbatim>\<open>NULL\<close> there gets no copy and ignores it).
\<close>

definition follow_path ::
  "config \<Rightarrow> disk \<Rightarrow> char_ptr \<Rightarrow> fault + (int \<times> int option \<times> string option)" where
  "follow_path c d path =
     (case path of
        Null \<Rightarrow> Inr (- 1, None, None)
      | Ptr a [] \<Rightarrow> Inr (- 1, None, None)
      | Ptr a (ch # rest) \<Rightarrow>
          (if ch \<noteq> CHR ''/'' then Inr (- 1, None, None)
           else (let pathstore = take (nat (MAX_PATH - 1)) rest
                 in case Disk_Read c d (INODE_TABLE_START_SECTOR c) of
                      None \<Rightarrow> Inr (- 1, None, None)
                    | Some cached_buffer \<Rightarrow>
                        (case follow_tokens c d (strsep_all pathstore) (- 1) 0
                                (INODE_TABLE_START_SECTOR c) cached_buffer None of
                           Inl f \<Rightarrow> Inl f
                         | Inr (aborted, parent_inode, child_inode, last_fname) \<Rightarrow>
                             (if aborted then Inr (- 1, None, last_fname)
                              else if child_inode < - 1 then Inr (- 1, None, last_fname)
                              else Inr (if parent_inode = - 1 \<and> child_inode = 0 then 0
                                        else parent_inode,
                                        Some child_inode, last_fname))))))"

section \<open>The state of the library\<close>

text \<open>
  Modelled from the spec: the error tags of the absent \<^verbatim>\<open>LibFS.h\<close>, which the
  spec lists as distinct enumerated tags.
\<close>

datatype os_error =
    E_GENERAL | E_CREATE | E_NO_SUCH_FILE | E_NO_SUCH_DIR | E_FILE_IN_USE
  | E_TOO_MANY_OPEN_FILES | E_BAD_FD | E_NO_SPACE | E_FILE_TOO_BIG
  | E_SEEK_OUT_OF_BOUNDS | E_BUFFER_TOO_SMALL | E_DIR_NOT_EMPTY | E_ROOT_DIR

text \<open>
  \<^verbatim>\<open>open_file_t\<close>; the field \<^verbatim>\<open>size\<close> is \<open>fsize\<close> here. The state is the disk
  image, the array \<^verbatim>\<open>open_files[MAX_OPEN_FILES]\<close> (indexed by the descriptor; only
  the indices \<open>0 .. MAX_OPEN_FILES - 1\<close> are the array) and \<^verbatim>\<open>osErrno\<close>.
\<close>

record open_file =
  inode :: int
  fsize :: int
  pos :: int

record fs_state =
  disk :: disk
  open_files :: "int \<Rightarrow> open_file"
  osErrno :: os_error

function is_file_open_from :: "(int \<Rightarrow> open_file) \<Rightarrow> int \<Rightarrow> int \<Rightarrow> int" where
  "is_file_open_from tbl ino i =
     (if i < MAX_OPEN_FILES
      then (if inode (tbl i) = ino then 1 else is_file_open_from tbl ino (i + 1))
      else 0)"
  by pat_completeness auto
termination
  by (relation "measure (\<lambda>(tbl, ino, i). nat (MAX_OPEN_FILES - i))") auto

declare is_file_open_from.simps [simp del]

definition is_file_open :: "(int \<Rightarrow> open_file) \<Rightarrow> int \<Rightarrow> int" where
  "is_file_open tbl ino = is_file_open_from tbl ino 0"

function new_file_fd_from :: "(int \<Rightarrow> open_file) \<Rightarrow> int \<Rightarrow> int" where
  "new_file_fd_from tbl i =
     (if i < MAX_OPEN_FILES
      then (if inode (tbl i) \<le> 0 then i else new_file_fd_from tbl (i + 1))
      else - 1)"
  by pat_completeness auto
termination
  by (relation "measure (\<lambda>(tbl, i). nat (MAX_OPEN_FILES - i))") auto

declare new_file_fd_from.simps [simp del]

definition new_file_fd :: "(int \<Rightarrow> open_file) \<Rightarrow> int" where
  "new_file_fd tbl = new_file_fd_from tbl 0"

section \<open>Opening, seeking and closing\<close>

text \<open>
  An API function returns its \<^verbatim>\<open>int\<close> result together with the new state, or a
  \<open>fault\<close>. Where a function reads a local variable that \<open>follow_path\<close> was to
  set and did not (\<^verbatim>\<open>int child_inode;\<close> has no initialiser), the value it finds
  there is the parameter \<open>junk\<close> of the model. The debug output of \<^verbatim>\<open>dprintf\<close>
  is not part of the model, and every \<^verbatim>\<open>calloc\<close> returns a buffer.
\<close>

definition File_Open :: "config \<Rightarrow> int \<Rightarrow> fs_state \<Rightarrow> char_ptr \<Rightarrow> fault + (int \<times> fs_state)" where
  "File_Open c junk s file =
     (let fd = new_file_fd (open_files s)
      in if fd < 0 then Inr (- 1, s\<lparr>osErrno := E_TOO_MANY_OPEN_FILES\<rparr>)
         else (case follow_path c (disk s) file of
                 Inl f \<Rightarrow> Inl f
               | Inr (parent_inode, last_inode, last_fname) \<Rightarrow>
                   (let child_inode = (case last_inode of Some v \<Rightarrow> v | None \<Rightarrow> junk)
                    in if child_inode \<ge> 0
                       then (let sector_no = inode_sector c child_inode
                             in case Disk_Read c (disk s) sector_no of
                                  None \<Rightarrow> Inr (- 1, s\<lparr>osErrno := E_GENERAL\<rparr>)
                                | Some inode_buffer \<Rightarrow>
                                    (case inode_offset c sector_no child_inode of
                                       Inl f \<Rightarrow> Inl f
                                     | Inr offset \<Rightarrow>
                                         (let child = offset * sizeof_inode c
                                          in if inode_type inode_buffer child \<noteq> 0
                                             then Inr (- 1, s\<lparr>osErrno := E_GENERAL\<rparr>)
                                             else Inr (fd, s\<lparr>open_files := (open_files s)
                                                    (fd := \<lparr>inode = child_inode,
                                                            fsize = inode_size inode_buffer child,
                                                            pos = 0\<rparr>)\<rparr>))))
                       else Inr (- 1, s\<lparr>osErrno := E_NO_SUCH_FILE\<rparr>))))"

text \<open>
  \<open>File_Seek\<close>. The second test of the source is
  \<^verbatim>\<open>if(open_files[fd].inode = 0)\<close>: an assignment, whose value 0 is false, so the
  branch that reports \<open>E_BAD_FD\<close> is never taken and the entry's \<open>inode\<close> field
  is 0 afterwards. In the first test \<^verbatim>\<open>offset < 0\<close> is decided before the table is
  indexed.
\<close>

definition File_Seek :: "fs_state \<Rightarrow> int \<Rightarrow> int \<Rightarrow> fault + (int \<times> fs_state)" where
  "File_Seek s fd offset =
     (if offset < 0 then Inr (- 1, s\<lparr>osErrno := E_SEEK_OUT_OF_BOUNDS\<rparr>)
      else if fd < 0 \<or> MAX_OPEN_FILES \<le> fd then Inl Out_Of_Bounds
      else if fsize (open_files s fd) < offset
      then Inr (- 1, s\<lparr>osErrno := E_SEEK_OUT_OF_BOUNDS\<rparr>)
      else Inr (0, s\<lparr>open_files := (open_files s)
                       (fd := (open_files s fd)\<lparr>inode := 0, pos := offset\<rparr>)\<rparr>))"

text \<open>
  \<open>File_Close\<close>. The range test is \<^verbatim>\<open>0 > fd || fd > MAX_OPEN_FILES\<close>, which lets
  \<open>fd = MAX_OPEN_FILES\<close> through to the array.
\<close>

definition File_Close :: "fs_state \<Rightarrow> int \<Rightarrow> fault + (int \<times> fs_state)" where
  "File_Close s fd =
     (if 0 > fd \<or> fd > MAX_OPEN_FILES then Inr (- 1, s\<lparr>osErrno := E_BAD_FD\<rparr>)
      else if MAX_OPEN_FILES \<le> fd then Inl Out_Of_Bounds
      else if inode (open_files s fd) \<le> 0 then Inr (- 1, s\<lparr>osErrno := E_BAD_FD\<rparr>)
      else Inr (0, s\<lparr>open_files := (open_files s)(fd := (open_files s fd)\<lparr>inode := 0\<rparr>)\<rparr>))"

section \<open>Reading and writing\<close>

text \<open>
  \<open>File_Read\<close>, inner loop: \<^verbatim>\<open>data[count++] = temp[beginByte]\<close> while
  \<^verbatim>\<open>beginByte < 512 && count < size\<close>. \<open>data\<close> is the list of the bytes stored
  into the caller's buffer so far, in the order of their indices.
\<close>

function read_bytes ::
  "sector \<Rightarrow> int \<Rightarrow> int \<Rightarrow> int \<Rightarrow> byte list \<Rightarrow> fault + (int \<times> byte list)" where
  "read_bytes temp size_n beginByte count data =
     (if beginByte < 512 \<and> count < size_n
      then (if beginByte < 0 then Inl Out_Of_Bounds
            else read_bytes temp size_n (beginByte + 1) (count + 1) (data @ [temp beginByte]))
      else Inr (count, data))"
  by pat_completeness auto
termination
  by (relation "measure (\<lambda>(temp, size_n, beginByte, count, data). nat (512 - beginByte))") auto

declare read_bytes.simps [simp del]

text \<open>
  \<open>File_Read\<close>, outer loop:
  \<^verbatim>\<open>while(count < tempsize && node->data[beginSector])\<close>. The result of the
  \<^verbatim>\<open>Disk_Read\<close> is not looked at: after a failed read \<open>temp\<close> is what it was.
\<close>

function read_sectors ::
  "config \<Rightarrow> disk \<Rightarrow> sector \<Rightarrow> int \<Rightarrow> int \<Rightarrow> int \<Rightarrow> int \<Rightarrow> int \<Rightarrow> sector \<Rightarrow> byte list
     \<Rightarrow> fault + (int \<times> byte list)" where
  "read_sectors c d inode_buffer node fpos size_n count beginSector temp data =
     (if count < size_n
      then (if beginSector < 0 \<or> MAX_SECTORS_PER_FILE c \<le> beginSector then Inl Out_Of_Bounds
            else if inode_data inode_buffer node beginSector \<noteq> 0
            then (let temp' = (case Disk_Read c d (inode_data inode_buffer node beginSector) of
                                 Some b \<Rightarrow> b | None \<Rightarrow> temp);
                      beginByte = (if count = 0 then c_mod fpos 512 else 0)
                  in case read_bytes temp' size_n beginByte count data of
                       Inl f \<Rightarrow> Inl f
                     | Inr (count', data') \<Rightarrow>
                         read_sectors c d inode_buffer node fpos size_n count'
                           (beginSector + 1) temp' data')
            else Inr (count, data))
      else Inr (count, data))"
  by pat_completeness auto
termination
  by (relation "measure (\<lambda>(c, d, inode_buffer, node, fpos, size_n, count, beginSector, temp, data).
                   nat (MAX_SECTORS_PER_FILE c - beginSector))") auto

declare read_sectors.simps [simp del]

text \<open>
  \<open>File_Read\<close> returns the count, and the model returns with it the bytes stored
  into \<open>buffer[0 .. count)\<close>.
\<close>

definition File_Read ::
  "config \<Rightarrow> fs_state \<Rightarrow> int \<Rightarrow> int \<Rightarrow> fault + (int \<times> byte list \<times> fs_state)" where
  "File_Read c s fd size_n =
     (if fd < 0 \<or> MAX_OPEN_FILES \<le> fd then Inl Out_Of_Bounds
      else if inode (open_files s fd) = 0 then Inr (- 1, [], s\<lparr>osErrno := E_BAD_FD\<rparr>)
      else (let f_inode = inode (open_files s fd);
                sector_no = inode_sector c f_inode
            in case Disk_Read c (disk s) sector_no of
                 None \<Rightarrow> Inr (- 1, [], s)
               | Some inode_buffer \<Rightarrow>
                   (case inode_offset c sector_no f_inode of
                      Inl f \<Rightarrow> Inl f
                    | Inr offset \<Rightarrow>
                        (let node = offset * sizeof_inode c;
                             beginSector = c_div (pos (open_files s fd)) 512
                         in case read_sectors c (disk s) inode_buffer node
                                   (pos (open_files s fd)) size_n 0 beginSector zero_sector [] of
                              Inl f \<Rightarrow> Inl f
                            | Inr (count, data) \<Rightarrow>
                                Inr (count, data,
                                     s\<lparr>open_files := (open_files s)
                                         (fd := (open_files s fd)
                                            \<lparr>pos := c_int (pos (open_files s fd) + count)\<rparr>)\<rparr>)))))"

text \<open>
  \<open>File_Write\<close>, inner loop: \<^verbatim>\<open>writeBuffer[beginByte] = temp[count++]\<close> while
  \<^verbatim>\<open>beginByte < 512 && tempsize > 0\<close>. \<open>buffer\<close> is the caller's buffer, a list
  of bytes.
\<close>

function write_bytes ::
  "sector \<Rightarrow> byte list \<Rightarrow> int \<Rightarrow> int \<Rightarrow> int \<Rightarrow> fault + (sector \<times> int \<times> int)" where
  "write_bytes writeBuffer buffer beginByte count tempsize =
     (if beginByte < 512 \<and> tempsize > 0
      then (if beginByte < 0 \<or> count < 0 \<or> int (length buffer) \<le> count then Inl Out_Of_Bounds
            else write_bytes (writeBuffer(beginByte := buffer ! nat count)) buffer
                   (beginByte + 1) (count + 1) (tempsize - 1))
      else Inr (writeBuffer, count, tempsize))"
  by pat_completeness auto
termination
  by (relation "measure (\<lambda>(writeBuffer, buffer, beginByte, count, tempsize). nat (512 - beginByte))")
     auto

declare write_bytes.simps [simp del]

text \<open>
  \<open>File_Write\<close>, outer loop \<^verbatim>\<open>while(count < size)\<close>: every round takes a new
  sector from the sector bitmap, stores it in \<^verbatim>\<open>node->data[beginSector]\<close> and writes
  a fresh buffer there. The result is the count, the disk and the inode sector buffer.
\<close>

function write_sectors ::
  "config \<Rightarrow> disk \<Rightarrow> sector \<Rightarrow> int \<Rightarrow> int \<Rightarrow> byte list \<Rightarrow> int \<Rightarrow> int \<Rightarrow> int \<Rightarrow> int
     \<Rightarrow> fault + (int \<times> disk \<times> sector)" where
  "write_sectors c d inode_buffer node fpos buffer size_n count tempsize beginSector =
     (if count < size_n
      then (case bitmap_first_unused c d (SECTOR_BITMAP_START_SECTOR c)
                   (SECTOR_BITMAP_SECTORS c) (SECTOR_BITMAP_SIZE c) of
              Inl f \<Rightarrow> Inl f
            | Inr (firstUnused, d1) \<Rightarrow>
                (if beginSector < 0 \<or> MAX_SECTORS_PER_FILE c \<le> beginSector
                 then Inl Out_Of_Bounds
                 else (let inode_buffer' =
                             store_int32 inode_buffer (node + 8 + 4 * beginSector) firstUnused;
                           beginByte = (if count = 0 then c_mod fpos 512 else 0)
                       in case write_bytes zero_sector buffer beginByte count tempsize of
                            Inl f \<Rightarrow> Inl f
                          | Inr (writeBuffer, count', tempsize') \<Rightarrow>
                              (let d2 = (case Disk_Write c d1
                                                (inode_data inode_buffer' node beginSector)
                                                writeBuffer of
                                           Some d' \<Rightarrow> d' | None \<Rightarrow> d1)
                               in write_sectors c d2 inode_buffer' node fpos buffer size_n
                                    count' tempsize' (beginSector + 1)))))
      else Inr (count, d, inode_buffer))"
  by pat_completeness auto
termination
  by (relation "measure (\<lambda>(c, d, inode_buffer, node, fpos, buffer, size_n, count, tempsize,
                            beginSector). nat (MAX_SECTORS_PER_FILE c - beginSector))") auto

declare write_sectors.simps [simp del]

definition File_Write ::
  "config \<Rightarrow> fs_state \<Rightarrow> int \<Rightarrow> byte list \<Rightarrow> int \<Rightarrow> fault + (int \<times> fs_state)" where
  "File_Write c s fd buffer size_n =
     (if fd < 0 \<or> MAX_OPEN_FILES \<le> fd then Inl Out_Of_Bounds
      else if inode (open_files s fd) = 0 then Inr (- 1, s\<lparr>osErrno := E_BAD_FD\<rparr>)
      else (let f_inode = inode (open_files s fd);
                sector_no = inode_sector c f_inode
            in case Disk_Read c (disk s) sector_no of
                 None \<Rightarrow> Inr (- 1, s)
               | Some inode_buffer \<Rightarrow>
                   (case inode_offset c sector_no f_inode of
                      Inl f \<Rightarrow> Inl f
                    | Inr offset \<Rightarrow>
                        (let node = offset * sizeof_inode c;
                             beginSector = c_div (pos (open_files s fd)) SECTOR_SIZE
                         in case write_sectors c (disk s) inode_buffer node
                                   (pos (open_files s fd)) buffer size_n 0 size_n beginSector of
                              Inl f \<Rightarrow> Inl f
                            | Inr (count, d1, inode_buffer1) \<Rightarrow>
                                (let e = open_files s fd;
                                     inode_buffer2 =
                                       store_int32 inode_buffer1 node
                                         (c_int (inode_size inode_buffer1 node + count));
                                     d2 = (case Disk_Write c d1 sector_no inode_buffer2 of
                                             Some d' \<Rightarrow> d' | None \<Rightarrow> d1)
                                 in Inr (count,
                                      s\<lparr>disk := d2,
                                        open_files := (open_files s)
                                          (fd := e\<lparr>fsize := c_int (fsize e + count),
                                                   pos := c_int (pos e + count)\<rparr>)\<rparr>))))))"

section \<open>Unlinking\<close>

text \<open>
  \<open>getInodeHelper\<close> returns a pointer into its own sector buffer, or the pointer
  \<^verbatim>\<open>-1\<close> (\<open>None\<close>) after a failed read, having set \<^verbatim>\<open>osErrno\<close>; every caller
  dereferences the result at once. The buffer is a local array of the helper, so the
  pointer outlives it; the model takes the pointer to be the buffer as the helper
  loaded it together with the offset of the inode in it, which is what a caller finds
  there as long as nothing has reused the helper's stack frame.
\<close>

definition getInodeHelper :: "config \<Rightarrow> disk \<Rightarrow> int \<Rightarrow> fault + (sector \<times> int) option" where
  "getInodeHelper c d child_inode =
     (let sector_no = inode_sector c child_inode
      in case Disk_Read c d sector_no of
           None \<Rightarrow> Inr None
         | Some inode_buffer \<Rightarrow>
             (case inode_offset c sector_no child_inode of
                Inl f \<Rightarrow> Inl f
              | Inr offset \<Rightarrow> Inr (Some (inode_buffer, offset * sizeof_inode c))))"

text \<open>
  \<open>remove_inode\<close>. The child inode is read through the pointer that
  \<open>getInodeHelper\<close> returned. The two tests come right after the helper has
  returned: a wrong type gives \<open>- 3\<close>, a size other than 0 gives \<open>- 2\<close>, both with
  the disk untouched. Past them the function calls \<^verbatim>\<open>dprintf\<close> (the source sets
  \<^verbatim>\<open>FSDEBUG\<close> to 1, so this is \<^verbatim>\<open>printf\<close>) and \<open>bitmap_reset\<close>, which take
  over the stack frame of the helper, and between these calls it reads
  \<^verbatim>\<open>childnode->data[i]\<close> and clears \<^verbatim>\<open>*childnode\<close> through the same pointer. What
  it finds there is no longer the inode, so from this point the outcome is the fault
  \<open>Dangling_Pointer\<close>; the resets of the bitmaps and the removal of the parent's
  directory entry lie behind it.
\<close>

definition remove_inode :: "config \<Rightarrow> disk \<Rightarrow> int \<Rightarrow> int \<Rightarrow> int \<Rightarrow> fault + (int \<times> disk)" where
  "remove_inode c d type parent_inode child_inode =
     (case getInodeHelper c d child_inode of
        Inl f \<Rightarrow> Inl f
      | Inr None \<Rightarrow> Inl Invalid_Pointer
      | Inr (Some (cbuf, childnode)) \<Rightarrow>
          (if inode_type cbuf childnode \<noteq> type then Inr (- 3, d)
           else if inode_size cbuf childnode \<noteq> 0 then Inr (- 2, d)
           else Inl Dangling_Pointer))"

text \<open>
  \<open>delete_helper\<close>. When the first \<open>remove_inode\<close> does not return 0 the function
  calls it again to compare its result with \<open>- 2\<close>, and a third time to compare it
  with \<open>- 3\<close>. With \<open>parent_inode < 0\<close> and \<open>child_inode \<ge> 0\<close> control reaches
  the end of the function without a \<^verbatim>\<open>return\<close>.
\<close>

definition delete_helper ::
  "config \<Rightarrow> int \<Rightarrow> fs_state \<Rightarrow> int \<Rightarrow> char_ptr \<Rightarrow> fault + (int \<times> fs_state)" where
  "delete_helper c junk s type pathname =
     (case follow_path c (disk s) pathname of
        Inl f \<Rightarrow> Inl f
      | Inr (parent_inode, last_inode, last_fname) \<Rightarrow>
          (let child_inode = (case last_inode of Some v \<Rightarrow> v | None \<Rightarrow> junk)
           in if is_file_open (open_files s) child_inode = 1
              then Inr (- 1, s\<lparr>osErrno := E_FILE_IN_USE\<rparr>)
              else if child_inode < 0
              then Inr (- 1, s\<lparr>osErrno := (if type \<noteq> 0 then E_NO_SUCH_FILE else E_NO_SUCH_DIR)\<rparr>)
              else if parent_inode \<ge> 0
              then (case remove_inode c (disk s) type parent_inode child_inode of
                      Inl f \<Rightarrow> Inl f
                    | Inr (r1, d1) \<Rightarrow>
                        (if r1 = 0 then Inr (0, s\<lparr>disk := d1\<rparr>)
                         else (case remove_inode c d1 type parent_inode child_inode of
                                 Inl f \<Rightarrow> Inl f
                               | Inr (r2, d2) \<Rightarrow>
                                   (if r2 = - 2
                                    then Inr (- 1, s\<lparr>disk := d2, osErrno := E_DIR_NOT_EMPTY\<rparr>)
                                    else (case remove_inode c d2 type parent_inode child_inode of
                                            Inl f \<Rightarrow> Inl f
                                          | Inr (r3, d3) \<Rightarrow>
                                              Inr (- 1, s\<lparr>disk := d3, osErrno := E_GENERAL\<rparr>))))))
              else Inl Missing_Return))"

definition File_Unlink :: "config \<Rightarrow> int \<Rightarrow> fs_state \<Rightarrow> char_ptr \<Rightarrow> fault + (int \<times> fs_state)" where
  "File_Unlink c junk s file = delete_helper c junk s 0 file"

text \<open>
  \<open>Dir_Unlink\<close>. Its test is \<^verbatim>\<open>path == "/"\<close>, a comparison of two pointers: it
  holds when the argument is the address of that string literal of \<^verbatim>\<open>LibFS.c\<close>,
  which is the parameter \<open>root_literal\<close> here.
\<close>

definition Dir_Unlink ::
  "config \<Rightarrow> nat \<Rightarrow> int \<Rightarrow> fs_state \<Rightarrow> char_ptr \<Rightarrow> fault + (int \<times> fs_state)" where
  "Dir_Unlink c root_literal junk s path =
     (if (case path of Null \<Rightarrow> False | Ptr a str \<Rightarrow> a = root_literal)
      then Inr (- 1, s\<lparr>osErrno := E_ROOT_DIR\<rparr>)
      else delete_helper c junk s 1 path)"

section \<open>Reading a directory\<close>

definition Dir_Size :: "config \<Rightarrow> int \<Rightarrow> disk \<Rightarrow> char_ptr \<Rightarrow> fault + int" where
  "Dir_Size c junk d path =
     (case follow_path c d path of
        Inl f \<Rightarrow> Inl f
      | Inr (parent_inode, last_inode, last_fname) \<Rightarrow>
          (let child_inode = (case last_inode of Some v \<Rightarrow> v | None \<Rightarrow> junk)
           in if child_inode \<ge> 0
              then (case getInodeHelper c d child_inode of
                      Inl f \<Rightarrow> Inl f
                    | Inr None \<Rightarrow> Inl Invalid_Pointer
                    | Inr (Some (buf, directory)) \<Rightarrow>
                        Inr (c_int (c_size_t (c_size_t (inode_size buf directory) * sizeof_dirent))))
              else Inr 0))"

text \<open>
  \<open>Dir_Read\<close>, its loop \<^verbatim>\<open>while(directory->data[i])\<close>: each sector is read into a
  scratch buffer and \<open>i\<close> is advanced; nothing is copied to the caller's buffer.
\<close>

function dir_read_sectors :: "config \<Rightarrow> sector \<Rightarrow> int \<Rightarrow> int \<Rightarrow> fault + int" where
  "dir_read_sectors c inode_buffer directory i =
     (if i < 0 \<or> MAX_SECTORS_PER_FILE c \<le> i then Inl Out_Of_Bounds
      else if inode_data inode_buffer directory i \<noteq> 0
      then dir_read_sectors c inode_buffer directory (i + 1)
      else Inr i)"
  by pat_completeness auto
termination
  by (relation "measure (\<lambda>(c, inode_buffer, directory, i). nat (MAX_SECTORS_PER_FILE c - i))") auto

declare dir_read_sectors.simps [simp del]

text \<open>
  \<open>Dir_Read\<close> never stores into \<^verbatim>\<open>buffer\<close>, so the model has no buffer; \<open>junk\<close>
  and \<open>junk'\<close> stand for the uninitialised \<^verbatim>\<open>d_inode\<close> of \<open>Dir_Read\<close> and
  \<^verbatim>\<open>child_inode\<close> of the \<open>Dir_Size\<close> it calls.
\<close>

definition Dir_Read ::
  "config \<Rightarrow> int \<Rightarrow> int \<Rightarrow> fs_state \<Rightarrow> char_ptr \<Rightarrow> int \<Rightarrow> fault + (int \<times> fs_state)" where
  "Dir_Read c junk junk' s path size_n =
     (case follow_path c (disk s) path of
        Inl f \<Rightarrow> Inl f
      | Inr (parent_inode, last_inode, last_fname) \<Rightarrow>
          (let d_inode = (case last_inode of Some v \<Rightarrow> v | None \<Rightarrow> junk);
               sector_no = inode_sector c d_inode
           in case Disk_Read c (disk s) sector_no of
                None \<Rightarrow> Inr (- 1, s)
              | Some inode_buffer \<Rightarrow>
                  (case inode_offset c sector_no d_inode of
                     Inl f \<Rightarrow> Inl f
                   | Inr offset \<Rightarrow>
                       (let directory = offset * sizeof_inode c
                        in case Dir_Size c junk' (disk s) path of
                             Inl f \<Rightarrow> Inl f
                           | Inr sz \<Rightarrow>
                               (if sz > size_n then Inr (- 1, s\<lparr>osErrno := E_BUFFER_TOO_SMALL\<rparr>)
                                else (case dir_read_sectors c inode_buffer directory 0 of
                                        Inl f \<Rightarrow> Inl f
                                      | Inr i \<Rightarrow> Inr (- 1, s)))))))"

section \<open>Formatting a new volume\<close>

definition OS_MAGIC :: int where
  "OS_MAGIC = 0xdeadbeef"

text \<open>
  \<open>FS_Boot\<close>, the loop that formats the inode table: every sector is zero, and the
  first one starts with the root inode (\<open>size = 0\<close>, \<open>type = 1\<close>). \<open>None\<close> is the
  failed \<^verbatim>\<open>Disk_Write\<close>, on which \<open>FS_Boot\<close> returns \<open>- 1\<close>.
\<close>

function format_inode_table :: "config \<Rightarrow> disk \<Rightarrow> int \<Rightarrow> disk option" where
  "format_inode_table c d i =
     (if i < INODE_TABLE_SECTORS c
      then (let buf = (if i = 0 then store_int32 (store_int32 zero_sector 0 0) 4 1
                       else zero_sector)
            in case Disk_Write c d (INODE_TABLE_START_SECTOR c + i) buf of
                 None \<Rightarrow> None
               | Some d' \<Rightarrow> format_inode_table c d' (i + 1))
      else Some d)"
  by pat_completeness auto
termination
  by (relation "measure (\<lambda>(c, d, i). nat (INODE_TABLE_SECTORS c - i))") auto

declare format_inode_table.simps [simp del]

text \<open>
  The branch of \<open>FS_Boot\<close> that creates a new file system on the initialised disk,
  from the superblock to the inode table: what it leaves on the disk before
  \<^verbatim>\<open>Disk_Save\<close>. After it \<open>FS_Boot\<close> clears \<^verbatim>\<open>open_files\<close> with
  \<^verbatim>\<open>memset\<close>, which is \<open>boot_table\<close>.
\<close>

definition FS_Boot_format :: "config \<Rightarrow> disk \<Rightarrow> disk option" where
  "FS_Boot_format c d =
     (case Disk_Write c d SUPERBLOCK_START_SECTOR (store_int32 zero_sector 0 OS_MAGIC) of
        None \<Rightarrow> None
      | Some d1 \<Rightarrow>
          (let d2 = bitmap_init c d1 INODE_BITMAP_START_SECTOR (INODE_BITMAP_SECTORS c) 1;
               d3 = bitmap_init c d2 (SECTOR_BITMAP_START_SECTOR c) (SECTOR_BITMAP_SECTORS c)
                      (c_int (DATABLOCK_START_SECTOR c))
           in format_inode_table c d3 0))"

definition boot_table :: "int \<Rightarrow> open_file" where
  "boot_table = (\<lambda>i. \<lparr>inode = 0, fsize = 0, pos = 0\<rparr>)"

section \<open>Example volumes\<close>

text \<open>
  A configuration for the concrete runs below: 10000 sectors, 1000 inodes, 30 sectors
  per file. With it the inode table starts at sector 5 and holds 4 inodes of 128 bytes
  per sector, and the data blocks start at sector 255.
\<close>

definition example_config :: config where
  "example_config = \<lparr>TOTAL_SECTORS = 10000, MAX_FILES = 1000, MAX_SECTORS_PER_FILE = 30\<rparr>"

text \<open>The volume \<open>FS_Boot\<close> formats on a zeroed disk, and the state after that boot.\<close>

definition fresh_volume :: disk where
  "fresh_volume =
     (case FS_Boot_format example_config (\<lambda>i. zero_sector) of
        Some d \<Rightarrow> d | None \<Rightarrow> (\<lambda>i. zero_sector))"

definition fresh_state :: fs_state where
  "fresh_state = \<lparr>disk = fresh_volume, open_files = boot_table, osErrno = E_GENERAL\<rparr>"

text \<open>
  A volume whose root directory (inode 0, one entry, directory sector 255) holds the
  regular file \<open>f\<close> (inode 1, 5 bytes, data sector 256, content \<open>hello\<close>): the
  superblock, the inode bitmap with bits 0 and 1, the sector bitmap with bits 0 to 256,
  the inode table sector 5, the directory sector and the data sector.
\<close>

definition volume_with_file :: disk where
  "volume_with_file = (\<lambda>i. zero_sector)
     (0 := zero_sector(0 := 0xEF, 1 := 0xBE, 2 := 0xAD, 3 := 0xDE),
      1 := zero_sector(0 := 0xC0),
      2 := (memset_sector zero_sector 255 32)(32 := 0x80),
      5 := zero_sector(0 := 1, 4 := 1, 8 := 255, 128 := 5, 137 := 1),
      255 := zero_sector(0 := 0x66, 16 := 1),
      256 := zero_sector(0 := 0x68, 1 := 0x65, 2 := 0x6C, 3 := 0x6C, 4 := 0x6F))"

definition state_with_file :: fs_state where
  "state_with_file = \<lparr>disk = volume_with_file, open_files = boot_table, osErrno = E_GENERAL\<rparr>"

text \<open>The same volume with \<open>/f\<close> open on descriptor 0, at position 0.\<close>

definition state_file_open :: fs_state where
  "state_file_open =
     \<lparr>disk = volume_with_file,
      open_files = boot_table(0 := \<lparr>inode = 1, fsize = 5, pos = 0\<rparr>),
      osErrno = E_GENERAL\<rparr>"

section \<open>Facts about the model\<close>

subsection \<open>The open-file table\<close>

lemma new_file_fd_from_free:
  assumes "i \<le> k" and "k < MAX_OPEN_FILES" and "inode (tbl k) \<le> 0"
  shows "i \<le> new_file_fd_from tbl i \<and> new_file_fd_from tbl i < MAX_OPEN_FILES
         \<and> inode (tbl (new_file_fd_from tbl i)) \<le> 0"
  using assms
proof (induction tbl i rule: new_file_fd_from.induct)
  case (1 tbl i)
  show ?case
  proof (cases "inode (tbl i) \<le> 0")
    case True
    with 1 show ?thesis
      by (simp add: new_file_fd_from.simps [of tbl i])
  next
    case False
    with "1.prems" have "i \<noteq> k" by auto
    with "1.prems" have next_le: "i + 1 \<le> k" and lt: "i < MAX_OPEN_FILES" by auto
    from "1.IH" [OF lt False next_le "1.prems"(2,3)] False lt show ?thesis
      by (simp add: new_file_fd_from.simps [of tbl i])
  qed
qed

lemma is_file_open_from_found:
  assumes "i \<le> k" and "k < MAX_OPEN_FILES" and "inode (tbl k) = ino"
  shows "is_file_open_from tbl ino i = 1"
  using assms
proof (induction tbl ino i rule: is_file_open_from.induct)
  case (1 tbl ino i)
  show ?case
  proof (cases "inode (tbl i) = ino")
    case True
    with 1 show ?thesis
      by (simp add: is_file_open_from.simps [of tbl ino i])
  next
    case False
    with "1.prems" have "i \<noteq> k" by auto
    with "1.prems" have next_le: "i + 1 \<le> k" and lt: "i < MAX_OPEN_FILES" by auto
    from "1.IH" [OF lt False next_le "1.prems"(2,3)] False lt show ?thesis
      by (simp add: is_file_open_from.simps [of tbl ino i])
  qed
qed

subsection \<open>The layout\<close>

lemma INODES_PER_SECTOR_pos:
  assumes "valid_config c"
  shows "1 \<le> INODES_PER_SECTOR c"
proof -
  from assms have "0 < sizeof_inode c" and "sizeof_inode c \<le> 512"
    by (simp_all add: valid_config_def sizeof_inode_def)
  then have "0 < 512 div sizeof_inode c"
    by (simp add: pos_imp_zdiv_pos_iff)
  then show ?thesis by (simp add: INODES_PER_SECTOR_def SECTOR_SIZE_def)
qed

lemma inode_table_on_disk:
  assumes "valid_config c"
  shows "0 \<le> INODE_TABLE_START_SECTOR c \<and> INODE_TABLE_START_SECTOR c < TOTAL_SECTORS c"
proof -
  from assms have files: "1 \<le> MAX_FILES c" and total: "0 < TOTAL_SECTORS c"
    and data: "DATABLOCK_START_SECTOR c < TOTAL_SECTORS c"
    by (simp_all add: valid_config_def)
  from files have "0 \<le> INODE_BITMAP_SIZE c"
    by (simp add: INODE_BITMAP_SIZE_def pos_imp_zdiv_nonneg_iff)
  then have inode_bitmap: "0 \<le> INODE_BITMAP_SECTORS c"
    by (simp add: INODE_BITMAP_SECTORS_def SECTOR_SIZE_def pos_imp_zdiv_nonneg_iff)
  from total have "0 \<le> SECTOR_BITMAP_SIZE c"
    by (simp add: SECTOR_BITMAP_SIZE_def pos_imp_zdiv_nonneg_iff)
  then have sector_bitmap: "0 \<le> SECTOR_BITMAP_SECTORS c"
    by (simp add: SECTOR_BITMAP_SECTORS_def SECTOR_SIZE_def pos_imp_zdiv_nonneg_iff)
  from INODES_PER_SECTOR_pos [OF assms] files have "0 \<le> INODE_TABLE_SECTORS c"
    by (simp add: INODE_TABLE_SECTORS_def pos_imp_zdiv_nonneg_iff)
  with inode_bitmap sector_bitmap data show ?thesis
    by (simp add: DATABLOCK_START_SECTOR_def INODE_TABLE_START_SECTOR_def
                  SECTOR_BITMAP_START_SECTOR_def INODE_BITMAP_START_SECTOR_def)
qed

lemma follow_path_root:
  assumes "valid_config c"
  shows "follow_path c d (Ptr a ''/'') = Inr (0, Some 0, None)"
  using inode_table_on_disk [OF assms]
  by (simp add: follow_path_def Disk_Read_def)

subsection \<open>The example volumes\<close>

lemma valid_example_config: "valid_config example_config"
  by code_simp

lemma example_total: "TOTAL_SECTORS example_config = 10000"
  by (simp add: example_config_def)

lemma file_path_resolves:
  "follow_path example_config volume_with_file (Ptr 4096 ''/f'') = Inr (0, Some 1, Some ''f'')"
  by code_simp

lemma file_inode_fields:
  "inode_type (volume_with_file 5) 128 = 0" "inode_size (volume_with_file 5) 128 = 5"
  by code_simp+

lemma file_inode_loaded:
  "getInodeHelper example_config volume_with_file 1 = Inr (Some (volume_with_file 5, 128))"
proof -
  have sector_no: "inode_sector example_config 1 = 5"
    by code_simp
  have offset: "inode_offset example_config 5 1 = Inr 1"
    by code_simp
  have sizeof: "sizeof_inode example_config = 128"
    by code_simp
  show ?thesis
    by (simp add: getInodeHelper_def sector_no offset sizeof Disk_Read_def example_total)
qed

text \<open>
  The state \<open>state_file_open\<close> is the one that \<open>File_Open\<close> of \<open>/f\<close> reaches from
  \<open>state_with_file\<close>; the descriptor is 0.
\<close>

lemma File_Open_example:
  "File_Open example_config 0 state_with_file (Ptr 4096 ''/f'') = Inr (0, state_file_open)"
proof -
  have slot: "new_file_fd boot_table = 0"
    by code_simp
  have image: "disk state_with_file = volume_with_file"
    by (simp add: state_with_file_def)
  from file_inode_loaded show ?thesis
    by (auto simp: File_Open_def getInodeHelper_def Let_def slot image file_path_resolves
                   file_inode_fields state_with_file_def state_file_open_def
             split: option.splits sum.splits)
qed

section \<open>Seeking\<close>

text \<open>
  C4. The claim: for an open descriptor and \<open>0 \<le> offset \<le> size\<close>, \<open>File_Seek\<close>
  returns 0, sets \<open>pos\<close> and changes nothing else of the entry, so that the
  descriptor stays open. The code: \<open>File_Seek\<close> returns 0 and sets \<open>pos\<close>, and it
  also stores 0 in the entry's \<open>inode\<close> field, whatever the field held, which marks
  the entry as free.
\<close>

theorem File_Seek_clears_inode:
  assumes "0 \<le> fd" and "fd < MAX_OPEN_FILES"
    and "0 \<le> offset" and "offset \<le> fsize (open_files s fd)"
  shows "File_Seek s fd offset =
           Inr (0, s\<lparr>open_files := (open_files s)
                       (fd := (open_files s fd)\<lparr>inode := 0, pos := offset\<rparr>)\<rparr>)"
  using assms by (simp add: File_Seek_def)

theorem File_Seek_clears_inode_witness:
  "inode (open_files state_file_open 0) = 1 \<and>
   File_Seek state_file_open 0 5 =
     Inr (0, state_file_open\<lparr>open_files := (open_files state_file_open)
               (0 := \<lparr>inode = 0, fsize = 5, pos = 5\<rparr>)\<rparr>)"
proof -
  have "fsize (open_files state_file_open 0) = 5"
    by (simp add: state_file_open_def)
  then show ?thesis
    using File_Seek_clears_inode [of 0 5 state_file_open]
    by (simp add: MAX_OPEN_FILES_def state_file_open_def)
qed

text \<open>
  The other half of the claim holds: an offset that is negative or beyond the cached
  size is refused with \<open>E_SEEK_OUT_OF_BOUNDS\<close>, and the table stays as it was.
\<close>

lemma File_Seek_out_of_bounds:
  assumes "0 \<le> fd" and "fd < MAX_OPEN_FILES"
    and "offset < 0 \<or> fsize (open_files s fd) < offset"
  shows "File_Seek s fd offset = Inr (- 1, s\<lparr>osErrno := E_SEEK_OUT_OF_BOUNDS\<rparr>)"
  using assms by (auto simp: File_Seek_def)

section \<open>Descriptors that are not open\<close>

text \<open>
  C8. The claim: on a descriptor whose entry is free, \<open>File_Seek\<close> (like
  \<open>File_Read\<close>, \<open>File_Write\<close> and \<open>File_Close\<close>) returns \<open>- 1\<close> with
  \<open>E_BAD_FD\<close>. The code: right after boot every entry is free, and
  \<open>File_Seek(0, 0)\<close> returns 0 and leaves \<^verbatim>\<open>osErrno\<close> as it was.
\<close>

theorem File_Seek_free_entry:
  "inode (open_files fresh_state 0) = 0 \<and> File_Seek fresh_state 0 0 = Inr (0, fresh_state)"
  by (simp add: File_Seek_def fresh_state_def boot_table_def MAX_OPEN_FILES_def fun_eq_iff)

text \<open>
  The three other functions do report \<open>E_BAD_FD\<close> on a free entry within the table,
  and \<open>File_Close\<close> also on a descriptor below 0 or above \<open>MAX_OPEN_FILES\<close>.
\<close>

lemma free_entry_is_bad_fd:
  assumes "0 \<le> fd" and "fd < MAX_OPEN_FILES" and "inode (open_files s fd) = 0"
  shows "File_Read c s fd n = Inr (- 1, [], s\<lparr>osErrno := E_BAD_FD\<rparr>)"
    and "File_Write c s fd buffer n = Inr (- 1, s\<lparr>osErrno := E_BAD_FD\<rparr>)"
    and "File_Close s fd = Inr (- 1, s\<lparr>osErrno := E_BAD_FD\<rparr>)"
  using assms by (simp_all add: File_Read_def File_Write_def File_Close_def)

lemma File_Close_out_of_range:
  assumes "fd < 0 \<or> MAX_OPEN_FILES < fd"
  shows "File_Close s fd = Inr (- 1, s\<lparr>osErrno := E_BAD_FD\<rparr>)"
  using assms by (auto simp: File_Close_def)

section \<open>Initialising a bitmap\<close>

text \<open>
  C5. The claim: after \<open>bitmap_init\<close> bit \<open>i\<close> of the bitmap is 1 for
  \<open>i < nbits\<close> and 0 otherwise. The code: with \<open>start = 1\<close>, \<open>num = 1\<close> and
  \<open>nbits = 2\<close> the first byte of sector 1 is \<open>0x40\<close>, so bit 0 is clear; the loop
  assigns the mask of each bit to the byte instead of adding it to the byte.
\<close>

theorem bitmap_init_two_bits:
  "bitmap_init example_config (\<lambda>i. zero_sector) 1 1 2 1 0 = 0x40 \<and>
   bit_is_clear (bitmap_init example_config (\<lambda>i. zero_sector) 1 1 2 1 0) 0"
  by code_simp

text \<open>
  \<open>FS_Boot\<close> meets the same defect: in the example configuration the data blocks
  start at sector 255, and in the sector bitmap of the fresh volume the byte for the
  sectors 248 to 255 is \<open>0x02\<close>, so the sectors 248 to 253 of the inode table count as
  unused.
\<close>

lemma fresh_volume_sector_bitmap:
  "DATABLOCK_START_SECTOR example_config = 255 \<and> fresh_volume 2 30 = 0xFF \<and>
   fresh_volume 2 31 = 0x02"
  by code_simp

section \<open>Opening a file\<close>

text \<open>
  C9. A file that is already open can be opened again: when the path resolves to a
  regular file whose inode is in the table on descriptor \<open>fd0\<close>, and some entry is
  free, \<open>File_Open\<close> returns a descriptor other than \<open>fd0\<close> and stores there the
  inode, the inode's size and the position 0; no other entry changes. The regular file
  is stated with \<open>getInodeHelper\<close>: its inode loads and has type 0.
\<close>

theorem File_Open_again:
  assumes config: "valid_config c"
    and path: "follow_path c (disk s) file = Inr (parent_inode, Some child_inode, last_fname)"
    and child: "getInodeHelper c (disk s) child_inode = Inr (Some (buf, node))"
    and regular: "inode_type buf node = 0"
    and fd0: "0 \<le> fd0" "fd0 < MAX_OPEN_FILES"
    and is_open: "0 < inode (open_files s fd0)" "inode (open_files s fd0) = child_inode"
    and free: "0 \<le> k" "k < MAX_OPEN_FILES" "inode (open_files s k) \<le> 0"
  shows "\<exists>fd. 0 \<le> fd \<and> fd < MAX_OPEN_FILES \<and> fd \<noteq> fd0 \<and>
           File_Open c junk s file =
             Inr (fd, s\<lparr>open_files := (open_files s)
                          (fd := \<lparr>inode = child_inode, fsize = inode_size buf node, pos = 0\<rparr>)\<rparr>)"
proof -
  define fd where "fd = new_file_fd (open_files s)"
  from new_file_fd_from_free [of 0 k "open_files s", OF free] have
    fd: "0 \<le> fd" "fd < MAX_OPEN_FILES" "inode (open_files s fd) \<le> 0"
    by (simp_all add: fd_def new_file_fd_def)
  from fd(3) is_open(1) have "fd \<noteq> fd0" by auto
  moreover from is_open have "0 \<le> child_inode" by simp
  with path child regular fd(1) have
    "File_Open c junk s file =
       Inr (fd, s\<lparr>open_files := (open_files s)
                    (fd := \<lparr>inode = child_inode, fsize = inode_size buf node, pos = 0\<rparr>)\<rparr>)"
    by (auto simp: File_Open_def getInodeHelper_def Let_def fd_def [symmetric]
             split: option.splits sum.splits)
  ultimately show ?thesis using fd(1,2) by blast
qed

theorem File_Open_again_witness:
  "\<exists>fd. 0 \<le> fd \<and> fd < MAX_OPEN_FILES \<and> fd \<noteq> 0 \<and>
     File_Open example_config 0 state_file_open (Ptr 4096 ''/f'') =
       Inr (fd, state_file_open\<lparr>open_files := (open_files state_file_open)
                  (fd := \<lparr>inode = 1, fsize = 5, pos = 0\<rparr>)\<rparr>)"
proof -
  have image: "disk state_file_open = volume_with_file"
    by (simp add: state_file_open_def)
  have is_open: "0 < inode (open_files state_file_open 0)"
                "inode (open_files state_file_open 0) = 1"
    by (simp_all add: state_file_open_def)
  have free: "inode (open_files state_file_open 1) \<le> 0"
    by (simp add: state_file_open_def boot_table_def)
  have path: "follow_path example_config (disk state_file_open) (Ptr 4096 ''/f'')
                = Inr (0, Some 1, Some ''f'')"
    by (simp add: image file_path_resolves)
  have child: "getInodeHelper example_config (disk state_file_open) 1
                 = Inr (Some (volume_with_file 5, 128))"
    by (simp add: image file_inode_loaded)
  from File_Open_again [where junk = 0, OF valid_example_config path child
      file_inode_fields(1) _ _ is_open _ _ free]
  show ?thesis
    by (simp add: MAX_OPEN_FILES_def file_inode_fields)
qed

text \<open>
  C10. A \<open>File_Open\<close> that returns \<open>- 1\<close> leaves every entry of the open-file table
  (and the disk) as it was: the only store into the table stands right before
  \<^verbatim>\<open>return fd\<close>, and that \<open>fd\<close> is not negative.
\<close>

theorem File_Open_failure_keeps_table:
  assumes "valid_config c" and "File_Open c junk s file = Inr (- 1, s')"
  shows "open_files s' = open_files s \<and> disk s' = disk s"
  using assms(2)
  by (auto simp: File_Open_def Let_def split: if_splits sum.splits option.splits prod.splits)

theorem File_Open_failure_keeps_table_witness:
  "File_Open example_config 0 fresh_state (Ptr 4096 ''/nofile'')
     = Inr (- 1, fresh_state\<lparr>osErrno := E_NO_SUCH_FILE\<rparr>) \<and>
   open_files (fresh_state\<lparr>osErrno := E_NO_SUCH_FILE\<rparr>) = open_files fresh_state \<and>
   disk (fresh_state\<lparr>osErrno := E_NO_SUCH_FILE\<rparr>) = disk fresh_state"
proof -
  have path: "follow_path example_config fresh_volume (Ptr 4096 ''/nofile'')
                = Inr (0, Some (- 1), Some ''nofile'')"
    by code_simp
  have slot: "new_file_fd boot_table = 0"
    by code_simp
  have failed: "File_Open example_config 0 fresh_state (Ptr 4096 ''/nofile'')
                  = Inr (- 1, fresh_state\<lparr>osErrno := E_NO_SUCH_FILE\<rparr>)"
    by (simp add: File_Open_def fresh_state_def path slot)
  from File_Open_failure_keeps_table [OF valid_example_config failed] failed show ?thesis
    by simp
qed

section \<open>Unlinking the root directory\<close>

text \<open>
  C7. The claim: for every string equal to \<open>/\<close>, \<open>Dir_Unlink\<close> returns \<open>- 1\<close>
  with \<open>E_ROOT_DIR\<close>. The code compares the pointer and not the string: when the
  string \<open>/\<close> lies at any other address than the literal of \<^verbatim>\<open>LibFS.c\<close>, the call
  goes on to \<open>delete_helper\<close>, the path resolves to inode 0, and as soon as one
  entry of the open-file table is free (its \<open>inode\<close> field is 0 too) the error is
  \<open>E_FILE_IN_USE\<close>.
\<close>

theorem Dir_Unlink_root_in_use:
  assumes "valid_config c" and "a \<noteq> root_literal"
    and "0 \<le> k" and "k < MAX_OPEN_FILES" and "inode (open_files s k) = 0"
  shows "Dir_Unlink c root_literal junk s (Ptr a ''/'') = Inr (- 1, s\<lparr>osErrno := E_FILE_IN_USE\<rparr>)"
  using assms(2) is_file_open_from_found [of 0 k "open_files s" 0, OF assms(3-5)]
  by (simp add: Dir_Unlink_def delete_helper_def follow_path_root [OF assms(1)] is_file_open_def)

theorem Dir_Unlink_root_in_use_witness:
  "Dir_Unlink example_config 8192 0 fresh_state (Ptr 4096 ''/'')
     = Inr (- 1, fresh_state\<lparr>osErrno := E_FILE_IN_USE\<rparr>)"
proof -
  have "inode (open_files fresh_state 0) = 0"
    by (simp add: fresh_state_def boot_table_def)
  from Dir_Unlink_root_in_use [OF valid_example_config _ _ _ this, of 4096 8192 0]
  show ?thesis by (simp add: MAX_OPEN_FILES_def)
qed

section \<open>Unlinking a file that has content\<close>

text \<open>
  C2. The claim: \<open>File_Unlink\<close> of an existing regular file that is not open returns
  0 whatever the size of the file. The code: \<open>remove_inode\<close> tests
  \<^verbatim>\<open>childnode->size!=0\<close> for files as for directories, so for a regular file with
  a size other than 0 \<open>File_Unlink\<close> returns \<open>- 1\<close> with \<open>E_DIR_NOT_EMPTY\<close> and
  changes nothing on the disk.
\<close>

theorem File_Unlink_nonempty_file:
  assumes config: "valid_config c"
    and path: "follow_path c (disk s) file = Inr (parent_inode, Some child_inode, last_fname)"
    and exists: "0 \<le> parent_inode" "0 \<le> child_inode"
    and not_open: "is_file_open (open_files s) child_inode = 0"
    and child: "getInodeHelper c (disk s) child_inode = Inr (Some (buf, node))"
    and regular: "inode_type buf node = 0"
    and nonempty: "inode_size buf node \<noteq> 0"
  shows "File_Unlink c junk s file = Inr (- 1, s\<lparr>osErrno := E_DIR_NOT_EMPTY\<rparr>)"
proof -
  from child regular nonempty have
    "remove_inode c (disk s) 0 parent_inode child_inode = Inr (- 2, disk s)"
    by (simp add: remove_inode_def)
  with path exists not_open show ?thesis
    by (simp add: File_Unlink_def delete_helper_def)
qed

theorem File_Unlink_nonempty_file_witness:
  "File_Unlink example_config 0 state_with_file (Ptr 4096 ''/f'')
     = Inr (- 1, state_with_file\<lparr>osErrno := E_DIR_NOT_EMPTY\<rparr>)"
proof -
  have image: "disk state_with_file = volume_with_file"
    by (simp add: state_with_file_def)
  have not_open: "is_file_open (open_files state_with_file) 1 = 0"
    by code_simp
  have nonempty: "inode_size (volume_with_file 5) 128 \<noteq> 0"
    by (simp add: file_inode_fields)
  have path: "follow_path example_config (disk state_with_file) (Ptr 4096 ''/f'')
                = Inr (0, Some 1, Some ''f'')"
    by (simp add: image file_path_resolves)
  have child: "getInodeHelper example_config (disk state_with_file) 1
                 = Inr (Some (volume_with_file 5, 128))"
    by (simp add: image file_inode_loaded)
  from File_Unlink_nonempty_file [where junk = 0,
      OF valid_example_config path _ _ not_open child file_inode_fields(1) nonempty]
  show ?thesis by simp
qed

section \<open>What Dir_Read returns\<close>

text \<open>
  C3. The claim: \<open>Dir_Read\<close> fills the buffer and returns the byte count of the
  entries, 0 on a freshly formatted volume. The code: whenever \<open>Dir_Read\<close> returns,
  it returns \<open>- 1\<close>, and it leaves the disk and the open-file table as they were;
  its loop reads the directory sectors into a scratch buffer and the function ends
  with \<^verbatim>\<open>return -1\<close>. The witness is the root of the freshly formatted volume.
\<close>

theorem Dir_Read_returns_minus_one:
  assumes "valid_config c" and "Dir_Read c junk junk' s path size_n = Inr (r, s')"
  shows "r = - 1 \<and> disk s' = disk s \<and> open_files s' = open_files s"
  using assms(2)
  by (auto simp: Dir_Read_def Let_def split: if_splits sum.splits option.splits prod.splits)

theorem Dir_Read_returns_minus_one_witness:
  "Dir_Read example_config 0 0 fresh_state (Ptr 4096 ''/'') 0 = Inr (- 1, fresh_state)"
proof -
  have path: "follow_path example_config (disk fresh_state) (Ptr 4096 ''/'') = Inr (0, Some 0, None)"
    by (rule follow_path_root [OF valid_example_config])
  have sector_no: "inode_sector example_config 0 = 5"
    by code_simp
  have offset: "inode_offset example_config 5 0 = Inr 0"
    by code_simp
  have dir_size: "Dir_Size example_config 0 (disk fresh_state) (Ptr 4096 ''/'') = Inr 0"
    by code_simp
  have sectors: "dir_read_sectors example_config (disk fresh_state 5) 0 0 = Inr 0"
    by code_simp
  have run: "Dir_Read example_config 0 0 fresh_state (Ptr 4096 ''/'') 0 = Inr (- 1, fresh_state)"
    by (simp add: Dir_Read_def path sector_no offset dir_size sectors Disk_Read_def example_total)
  from Dir_Read_returns_minus_one [OF valid_example_config run] run show ?thesis by simp
qed

section \<open>Writing, seeking back and reading\<close>

text \<open>
  C1. The claim: after open, write and a seek to 0, reading returns the bytes written.
  The code: a \<open>File_Seek\<close> that returns 0 has cleared the entry's \<open>inode\<close> field,
  so the \<open>File_Read\<close> that follows on the same descriptor returns \<open>- 1\<close> with
  \<open>E_BAD_FD\<close> and transfers nothing. The witness runs the four calls on the volume
  with the file \<open>/f\<close>.
\<close>

theorem File_Read_after_File_Seek:
  assumes "0 \<le> fd" and "fd < MAX_OPEN_FILES"
    and "File_Seek s fd offset = Inr (0, s')"
  shows "File_Read c s' fd n = Inr (- 1, [], s'\<lparr>osErrno := E_BAD_FD\<rparr>)"
  using assms
  by (auto simp: File_Seek_def File_Read_def split: if_splits)

theorem File_Read_after_File_Seek_witness:
  "\<exists>s2 s3.
     File_Open example_config 0 state_with_file (Ptr 4096 ''/f'') = Inr (0, state_file_open) \<and>
     File_Write example_config state_file_open 0 [0x68, 0x65, 0x6C, 0x6C, 0x6F] 5 = Inr (5, s2) \<and>
     File_Seek s2 0 0 = Inr (0, s3) \<and>
     File_Read example_config s3 0 5 = Inr (- 1, [], s3\<lparr>osErrno := E_BAD_FD\<rparr>)"
proof -
  have "map_sum id (\<lambda>(r, s). (r, fsize (open_files s 0)))
          (File_Write example_config state_file_open 0 [0x68, 0x65, 0x6C, 0x6C, 0x6F] 5)
        = Inr (5, 10)"
    by code_simp
  then obtain s2 where
    written: "File_Write example_config state_file_open 0 [0x68, 0x65, 0x6C, 0x6C, 0x6F] 5
                = Inr (5, s2)" and
    size10: "fsize (open_files s2 0) = 10"
    by (cases "File_Write example_config state_file_open 0 [0x68, 0x65, 0x6C, 0x6C, 0x6F] 5")
       auto
  define s3 where "s3 = s2\<lparr>open_files := (open_files s2)
                              (0 := (open_files s2 0)\<lparr>inode := 0, pos := 0\<rparr>)\<rparr>"
  have sought: "File_Seek s2 0 0 = Inr (0, s3)"
    by (simp add: File_Seek_def MAX_OPEN_FILES_def size10 s3_def)
  from File_Read_after_File_Seek [OF _ _ sought, of example_config 5]
  have "File_Read example_config s3 0 5 = Inr (- 1, [], s3\<lparr>osErrno := E_BAD_FD\<rparr>)"
    by (simp add: MAX_OPEN_FILES_def)
  with File_Open_example written sought show ?thesis by blast
qed

section \<open>How much File_Read transfers\<close>

text \<open>
  C6. The claim: \<open>File_Read\<close> transfers \<open>min(n, size - pos)\<close> bytes, returns that
  count and never reads at or past offset \<open>size\<close>. The code: the file \<open>/f\<close> has 5
  bytes and is open on descriptor 0 at position 0 (the state that \<open>File_Open\<close>
  reaches); a read of 10 bytes returns 10, the 5 bytes of the file followed by 5 more
  bytes of its sector, and moves \<open>pos\<close> to 10, beyond the size 5 that the entry and
  the inode hold, where \<open>min(n, size - pos)\<close> is 5. The loop ends a read where
  \<^verbatim>\<open>node->data[beginSector]\<close> is 0, that is at the end of a sector and not at the
  end of the file.
\<close>

theorem File_Read_past_size:
  "fsize (open_files state_file_open 0) = 5 \<and> pos (open_files state_file_open 0) = 0 \<and>
   inode_size (volume_with_file 5) 128 = 5 \<and>
   File_Read example_config state_file_open 0 10 =
     Inr (10, [0x68, 0x65, 0x6C, 0x6C, 0x6F, 0, 0, 0, 0, 0],
          state_file_open\<lparr>open_files := (open_files state_file_open)
             (0 := \<lparr>inode = 1, fsize = 5, pos = 10\<rparr>)\<rparr>) \<and>
   (10 :: int) \<noteq> min 10 (5 - 0)"
proof -
  have entry: "open_files state_file_open 0 = \<lparr>inode = 1, fsize = 5, pos = 0\<rparr>"
    by (simp add: state_file_open_def)
  have image: "disk state_file_open = volume_with_file"
    by (simp add: state_file_open_def)
  have loop: "read_sectors example_config volume_with_file (volume_with_file 5) 128 0 10 0 0
                zero_sector [] = Inr (10, [0x68, 0x65, 0x6C, 0x6C, 0x6F, 0, 0, 0, 0, 0])"
    by code_simp
  have zero: "c_div 0 512 = 0" "c_int 10 = 10"
    by (simp_all add: c_div_def c_int_def)
  from file_inode_loaded have
    "File_Read example_config state_file_open 0 10 =
       Inr (10, [0x68, 0x65, 0x6C, 0x6C, 0x6F, 0, 0, 0, 0, 0],
            state_file_open\<lparr>open_files := (open_files state_file_open)
               (0 := \<lparr>inode = 1, fsize = 5, pos = 10\<rparr>)\<rparr>)"
    by (auto simp: File_Read_def getInodeHelper_def Let_def entry image loop zero
                   MAX_OPEN_FILES_def split: option.splits sum.splits)
  then show ?thesis by (simp add: entry file_inode_fields)
qed

text \<open>
  The position the read leaves behind is one that \<open>File_Seek\<close> refuses on the same
  entry: 10 is beyond the cached size 5.
\<close>

lemma File_Seek_refuses_position_after_read:
  "File_Seek (state_file_open\<lparr>open_files := (open_files state_file_open)
                (0 := \<lparr>inode = 1, fsize = 5, pos = 10\<rparr>)\<rparr>) 0 10 =
     Inr (- 1, state_file_open\<lparr>open_files := (open_files state_file_open)
                 (0 := \<lparr>inode = 1, fsize = 5, pos = 10\<rparr>),
               osErrno := E_SEEK_OUT_OF_BOUNDS\<rparr>)"
  by (simp add: File_Seek_def MAX_OPEN_FILES_def)

end
